theory Spec2Isabelle
  imports Main
begin

section \<open>Values and errors of the Python program\<close>

text \<open>
  The program is \<^verbatim>\<open>bot.py\<close>: a Flask webhook handler, a helper that asks the GitHub API
  for the labels of an issue, a score table in SQLite and a Discord command that prints
  the best scores.

  Strings are lists of 8-bit characters, read as the code points U+0000 to U+00FF;
  text with code points above U+00FF is outside the model. JSON numbers are integers.
  A parsed JSON object is an association list read with \<open>map_of\<close>.
\<close>

datatype json =
    JNull
  | JBool bool
  | JInt int
  | JStr string
  | JArr "json list"
  | JObj "(string \<times> json) list"

text \<open>
  The exceptions that the modelled statements can raise. \<open>RequestException\<close> stands for
  what \<^verbatim>\<open>requests.get\<close> raises when the connection fails or times out,
  \<open>JSONDecodeError\<close> for what \<^verbatim>\<open>response.json()\<close> raises on a body that is
  not JSON.
\<close>

datatype py_error =
    KeyError
  | TypeError
  | AttributeError
  | RequestException
  | JSONDecodeError

definition ebind :: "'e + 'a \<Rightarrow> ('a \<Rightarrow> 'e + 'b) \<Rightarrow> 'e + 'b" where
  "ebind m f = (case m of Inl e \<Rightarrow> Inl e | Inr x \<Rightarrow> f x)"

text \<open>Evaluating a list of fallible computations from left to right: the first error wins.\<close>

fun collect :: "('e + 'a) list \<Rightarrow> 'e + 'a list" where
  "collect [] = Inr []"
| "collect (m # ms) =
     (case m of
        Inl e \<Rightarrow> Inl e
      | Inr x \<Rightarrow> (case collect ms of Inl e \<Rightarrow> Inl e | Inr xs \<Rightarrow> Inr (x # xs)))"

text \<open>\<^verbatim>\<open>v[k]\<close> with a string key: a dict looks the key up, every other JSON value
  refuses a string subscript.\<close>

definition subscript :: "json \<Rightarrow> string \<Rightarrow> py_error + json" where
  "subscript v k =
     (case v of
        JObj kvs \<Rightarrow> (case map_of kvs k of None \<Rightarrow> Inl KeyError | Some x \<Rightarrow> Inr x)
      | _ \<Rightarrow> Inl TypeError)"

text \<open>\<^verbatim>\<open>v.get(k, d)\<close>: only a dict has the method.\<close>

definition dict_get :: "json \<Rightarrow> string \<Rightarrow> json \<Rightarrow> py_error + json" where
  "dict_get v k d =
     (case v of
        JObj kvs \<Rightarrow> Inr (case map_of kvs k of None \<Rightarrow> d | Some x \<Rightarrow> x)
      | _ \<Rightarrow> Inl AttributeError)"

text \<open>Python's truth value of a JSON value.\<close>

fun truthy :: "json \<Rightarrow> bool" where
  "truthy JNull = False"
| "truthy (JBool b) = b"
| "truthy (JInt n) = (n \<noteq> 0)"
| "truthy (JStr s) = (s \<noteq> [])"
| "truthy (JArr xs) = (xs \<noteq> [])"
| "truthy (JObj kvs) = (kvs \<noteq> [])"

text \<open>Iterating over a JSON value in a comprehension: a list gives its elements, a dict
  its keys, a string its characters; the other values are not iterable.\<close>

fun py_iter :: "json \<Rightarrow> py_error + json list" where
  "py_iter (JArr xs) = Inr xs"
| "py_iter (JObj kvs) = Inr (map (\<lambda>kv. JStr (fst kv)) kvs)"
| "py_iter (JStr s) = Inr (map (\<lambda>c. JStr [c]) s)"
| "py_iter _ = Inl TypeError"

subsection \<open>Characters\<close>

definition code :: "char \<Rightarrow> nat" where
  "code c = of_char c"

text \<open>\<^verbatim>\<open>str.lower()\<close> on U+0000 to U+00FF: the letters A to Z and the
  upper-case letters of Latin-1 (U+00C0 to U+00DE without the multiplication sign) move
  up by 32.\<close>

definition lower_char :: "char \<Rightarrow> char" where
  "lower_char c =
     (if (65 \<le> code c \<and> code c \<le> 90) \<or> (192 \<le> code c \<and> code c \<le> 222 \<and> code c \<noteq> 215)
      then char_of (code c + 32) else c)"

definition lower :: "string \<Rightarrow> string" where
  "lower s = map lower_char s"

section \<open>The state of the program\<close>

text \<open>
  The table \<^verbatim>\<open>scores\<close> (user name, points) is a list of rows in insertion order.
  The points column is an unbounded integer, as Python's integers are.
  An announcement is what the handler hands to the Discord event loop; the title and the
  URL of the pull request stay JSON values, since the handler only formats them.
  The log holds one entry for each message the program prints.
\<close>

record announcement =
  pr_title :: json
  pr_url :: json
  contributor :: string
  awarded :: int

datatype log_event =
    ScoreUpdated string int
  | FetchFailed nat int
  | NoLinkedIssue json

record bot_state =
  scores :: "(string \<times> int) list"
  sent :: "announcement list"
  log :: "log_event list"

section \<open>The GitHub API helper\<close>

record response =
  status_code :: int
  json_body :: "py_error + json"

text \<open>
  What the handler reads from outside: the webhook secret, the digest bytes that
  HMAC-SHA256 computes (key, then message; the function is a parameter, and every theorem
  holds for whichever function it is), the answer of \<^verbatim>\<open>requests.get\<close> for the
  URL of an issue number (the repository is a constant of the program), and whether
  \<^verbatim>\<open>bot.get_channel\<close> finds the channel.
\<close>

record env =
  github_secret :: string
  hmac_sha256 :: "string \<Rightarrow> string \<Rightarrow> string"
  http_get :: "nat \<Rightarrow> py_error + response"
  channel_found :: bool

text \<open>Lines 79 to 85: the chain of tests on the set of label names.\<close>

definition points_for_labels :: "string set \<Rightarrow> int" where
  "points_for_labels labels =
     (if ''hard'' \<in> labels then 20
      else if ''medium'' \<in> labels then 10
      else if ''easy'' \<in> labels then 5
      else 0)"

text \<open>\<^verbatim>\<open>label['name'].lower()\<close> for one element of the labels.\<close>

definition label_name_lower :: "json \<Rightarrow> py_error + string" where
  "label_name_lower label =
     ebind (subscript label ''name'')
       (\<lambda>n. case n of JStr s \<Rightarrow> Inr (lower s) | _ \<Rightarrow> Inl AttributeError)"

text \<open>Line 77: the set comprehension over \<^verbatim>\<open>data.get('labels', [])\<close>.\<close>

definition label_set :: "json \<Rightarrow> py_error + string set" where
  "label_set data =
     ebind (dict_get data ''labels'' (JArr []))
       (\<lambda>ls. ebind (py_iter ls)
         (\<lambda>items. ebind (collect (map label_name_lower items))
           (\<lambda>names. Inr (set names))))"

definition get_points_from_pr_labels ::
  "env \<Rightarrow> nat \<Rightarrow> bot_state \<Rightarrow> (py_error + int) \<times> bot_state" where
  "get_points_from_pr_labels e issue_number st =
     (case http_get e issue_number of
        Inl err \<Rightarrow> (Inl err, st)
      | Inr r \<Rightarrow>
          if status_code r \<noteq> 200
          then (Inr 0, st\<lparr>log := log st @ [FetchFailed issue_number (status_code r)]\<rparr>)
          else (case json_body r of
                  Inl err \<Rightarrow> (Inl err, st)
                | Inr data \<Rightarrow>
                    (case label_set data of
                       Inl err \<Rightarrow> (Inl err, st)
                     | Inr labels \<Rightarrow> (Inr (points_for_labels labels), st))))"

section \<open>The score table\<close>

text \<open>
  Lines 49 to 59. \<^verbatim>\<open>SELECT ... WHERE github_username = ?\<close> followed by
  \<^verbatim>\<open>fetchone\<close> gives the first row with that name, if there is one. A row is a
  non-empty tuple, so \<^verbatim>\<open>if result\<close> tests that the row exists. \<^verbatim>\<open>UPDATE\<close>
  writes the new points into every row with that name, \<^verbatim>\<open>INSERT\<close> appends a row.
\<close>

definition update_score :: "string \<Rightarrow> int \<Rightarrow> bot_state \<Rightarrow> bot_state" where
  "update_score username points_to_add st =
     (let rows =
        (case map_of (scores st) username of
           Some p \<Rightarrow>
             map (\<lambda>row. if fst row = username then (fst row, p + points_to_add) else row)
               (scores st)
         | None \<Rightarrow> scores st @ [(username, points_to_add)])
      in st\<lparr>scores := rows, log := log st @ [ScoreUpdated username points_to_add]\<rparr>)"

section \<open>The leaderboard command\<close>

text \<open>
  \<^verbatim>\<open>SELECT github_username, points FROM scores ORDER BY points DESC LIMIT n\<close>. The
  program runs it with \<open>n = 10\<close>. SQL leaves the order of rows with equal points open;
  here they keep the order of the table.
\<close>

definition select_top :: "nat \<Rightarrow> (string \<times> int) list \<Rightarrow> (string \<times> int) list" where
  "select_top n rows = take n (sort_key (\<lambda>row. - snd row) rows)"

text \<open>\<^verbatim>\<open>str\<close> of an integer, as the f-string prints it.\<close>

fun str_nat :: "nat \<Rightarrow> string" where
  "str_nat n =
     (if n < 10 then [char_of (48 + n)]
      else str_nat (n div 10) @ [char_of (48 + n mod 10)])"

definition str_int :: "int \<Rightarrow> string" where
  "str_int i = (if i < 0 then CHR ''-'' # str_nat (nat (- i)) else str_nat (nat i))"

text \<open>Lines 100 and 101: one line of the description for each row, ranks from 1.\<close>

fun leaderboard_lines :: "nat \<Rightarrow> (string \<times> int) list \<Rightarrow> string" where
  "leaderboard_lines rank [] = []"
| "leaderboard_lines rank (row # rows) =
     ''**'' @ str_nat rank @ ''.** '' @ fst row @ '' - `'' @ str_int (snd row)
       @ '' points`'' @ [CHR 0x0A] @ leaderboard_lines (Suc rank) rows"

text \<open>What the command sends: a plain text, or the embed with the leaderboard title,
  of which the description is kept.\<close>

datatype message =
    Text string
  | LeaderboardEmbed string

definition show_leaderboard :: "bot_state \<Rightarrow> message \<times> bot_state" where
  "show_leaderboard st =
     (let results = select_top 10 (scores st)
      in if results = [] then (Text ''The leaderboard is currently empty!'', st)
         else (LeaderboardEmbed (leaderboard_lines 1 results), st))"

section \<open>The issue reference in the body of a pull request\<close>

text \<open>
  Line 134 searches the body for
  \<^verbatim>\<open>(?:close|closes|closed|fix|fixes|fixed|resolve|resolves|resolved)\s#(\d+)\<close>
  with \<^verbatim>\<open>re.IGNORECASE\<close>. On U+0000 to U+00FF, \<^verbatim>\<open>\s\<close> is one of twelve
  characters, \<^verbatim>\<open>\d\<close> is 0 to 9, and a letter of a keyword matches itself and its
  capital.
\<close>

definition is_space :: "char \<Rightarrow> bool" where
  "is_space c = (code c \<in> {9, 10, 11, 12, 13, 28, 29, 30, 31, 32, 133, 160})"

definition is_digit :: "char \<Rightarrow> bool" where
  "is_digit c = (48 \<le> code c \<and> code c \<le> 57)"

definition closing_keywords :: "string list" where
  "closing_keywords = [''close'', ''closes'', ''closed'', ''fix'', ''fixes'', ''fixed'',
     ''resolve'', ''resolves'', ''resolved'']"

text \<open>A literal of the pattern against the start of the text, ignoring case.\<close>

fun ci_prefix :: "string \<Rightarrow> string \<Rightarrow> bool" where
  "ci_prefix [] s = True"
| "ci_prefix (p # ps) [] = False"
| "ci_prefix (p # ps) (c # cs) = (lower_char c = lower_char p \<and> ci_prefix ps cs)"

text \<open>\<^verbatim>\<open>\s#(\d+)\<close> against the start of the text; the result is group 1. The group
  is greedy and nothing follows it, so it is the longest run of digits.\<close>

definition match_tail :: "string \<Rightarrow> string option" where
  "match_tail s =
     (case s of
        w # h # rest \<Rightarrow>
          if is_space w \<and> h = CHR ''#'' \<and> takeWhile is_digit rest \<noteq> []
          then Some (takeWhile is_digit rest) else None
      | _ \<Rightarrow> None)"

text \<open>The alternatives are tried in the order of the pattern; when the rest of the
  pattern fails after one of them, the next one is tried.\<close>

fun match_alternatives :: "string list \<Rightarrow> string \<Rightarrow> string option" where
  "match_alternatives [] s = None"
| "match_alternatives (k # ks) s =
     (case (if ci_prefix k s then match_tail (drop (length k) s) else None) of
        Some g \<Rightarrow> Some g
      | None \<Rightarrow> match_alternatives ks s)"

text \<open>\<^verbatim>\<open>re.search\<close>: the match at the leftmost position that has one.\<close>

fun re_search :: "string \<Rightarrow> string option" where
  "re_search [] = match_alternatives closing_keywords []"
| "re_search (c # cs) =
     (case match_alternatives closing_keywords (c # cs) of
        Some g \<Rightarrow> Some g
      | None \<Rightarrow> re_search cs)"

text \<open>\<^verbatim>\<open>int\<close> of a string of digits. (The limit that recent Python versions put on
  the number of digits is not modelled.)\<close>

definition int_of_digits :: "string \<Rightarrow> nat" where
  "int_of_digits ds = foldl (\<lambda>n c. 10 * n + (code c - 48)) 0 ds"

text \<open>Lines 131 to 141 on the value of \<^verbatim>\<open>pr.get('body')\<close>: a false value becomes
  the empty string; \<^verbatim>\<open>re.search\<close> refuses what is not a string.\<close>

definition extract_issue :: "json \<Rightarrow> py_error + nat option" where
  "extract_issue body =
     (case (if truthy body then body else JStr []) of
        JStr pr_body \<Rightarrow> Inr (map_option int_of_digits (re_search pr_body))
      | _ \<Rightarrow> Inl TypeError)"

section \<open>The webhook handler\<close>

text \<open>
  A request as the handler reads it: the value of the header
  \<^verbatim>\<open>X-Hub-Signature-256\<close> if the header is there, the raw body, and what
  \<^verbatim>\<open>request.json\<close> gives: the parsed value, or the HTTP status with which Flask
  aborts when it cannot parse the body. The model has no JSON parser: the request
  carries what Flask's parser makes of the raw body.
\<close>

record request =
  req_signature :: "string option"
  req_data :: string
  req_json :: "nat + json"

text \<open>
  How a call of the handler ends: it returns a status, it aborts with an HTTP error
  status, or an exception leaves it. \<open>Unmodelled\<close> marks the one place the model does
  not follow: a score for a login that is not a string (what SQLite does with such a key
  is not described here).
\<close>

datatype outcome =
    Returned nat
  | Aborted nat
  | Raised py_error
  | Unmodelled

text \<open>\<^verbatim>\<open>hexdigest()\<close>: two lower-case hexadecimal digits for each byte.\<close>

definition hex_digit :: "nat \<Rightarrow> char" where
  "hex_digit n = (if n < 10 then char_of (48 + n) else char_of (87 + n))"

definition hexdigest :: "string \<Rightarrow> string" where
  "hexdigest bytes = concat (map (\<lambda>c. [hex_digit (code c div 16), hex_digit (code c mod 16)]) bytes)"

definition expected_signature :: "env \<Rightarrow> string \<Rightarrow> string" where
  "expected_signature e body = ''sha256='' @ hexdigest (hmac_sha256 e (github_secret e) body)"

definition startswith :: "string \<Rightarrow> string \<Rightarrow> bool" where
  "startswith s p = (take (length p) s = p)"

definition is_ascii :: "string \<Rightarrow> bool" where
  "is_ascii s = list_all (\<lambda>c. code c < 128) s"

text \<open>\<^verbatim>\<open>hmac.compare_digest\<close> on two strings: it raises \<^verbatim>\<open>TypeError\<close> unless
  both are ASCII.\<close>

definition compare_digest :: "string \<Rightarrow> string \<Rightarrow> py_error + bool" where
  "compare_digest a b = (if is_ascii a \<and> is_ascii b then Inr (a = b) else Inl TypeError)"

text \<open>Lines 115 to 121. \<open>None\<close>: the request passes; otherwise how the handler ends.\<close>

definition verify_signature :: "env \<Rightarrow> request \<Rightarrow> outcome option" where
  "verify_signature e req =
     (case req_signature req of
        None \<Rightarrow> Some (Aborted 400)
      | Some signature \<Rightarrow>
          if signature = [] \<or> \<not> startswith signature ''sha256='' then Some (Aborted 400)
          else (case compare_digest (expected_signature e (req_data req)) signature of
                  Inl err \<Rightarrow> Some (Raised err)
                | Inr equal \<Rightarrow> if \<not> equal then Some (Aborted 403) else None))"

text \<open>The local variables of lines 126 to 131.\<close>

record merge_event =
  username :: json
  pr_number :: json
  title :: json
  html_url :: json
  body :: json

text \<open>Line 125: \<^verbatim>\<open>and\<close> evaluates its right side only when the action is
  \<^verbatim>\<open>'closed'\<close>.\<close>

definition merged_pr_closed :: "json \<Rightarrow> py_error + bool" where
  "merged_pr_closed d =
     ebind (dict_get d ''action'' JNull)
       (\<lambda>action.
          if action = JStr ''closed''
          then ebind (subscript d ''pull_request'')
                 (\<lambda>pr. ebind (subscript pr ''merged'') (\<lambda>merged. Inr (truthy merged)))
          else Inr False)"

definition read_merge_event :: "json \<Rightarrow> py_error + merge_event" where
  "read_merge_event d =
     ebind (subscript d ''pull_request'')
       (\<lambda>pr. ebind (subscript pr ''user'')
         (\<lambda>user. ebind (subscript user ''login'')
           (\<lambda>login. ebind (subscript pr ''number'')
             (\<lambda>number. ebind (subscript pr ''title'')
               (\<lambda>t. ebind (subscript pr ''html_url'')
                 (\<lambda>url. ebind (dict_get pr ''body'' JNull)
                   (\<lambda>b. Inr \<lparr>username = login, pr_number = number, title = t,
                              html_url = url, body = b\<rparr>)))))))"

text \<open>Lines 144 to 160, once the issue number is known.\<close>

definition award :: "env \<Rightarrow> merge_event \<Rightarrow> nat \<Rightarrow> bot_state \<Rightarrow> outcome \<times> bot_state" where
  "award e ev issue_number st =
     (case get_points_from_pr_labels e issue_number st of
        (Inl err, st1) \<Rightarrow> (Raised err, st1)
      | (Inr points, st1) \<Rightarrow>
          if points > 0
          then (case username ev of
                  JStr name \<Rightarrow>
                    (let st2 = update_score name points st1
                     in if channel_found e
                        then (Returned 204,
                              st2\<lparr>sent := sent st2 @
                                [\<lparr>pr_title = title ev, pr_url = html_url ev,
                                  contributor = name, awarded = points\<rparr>]\<rparr>)
                        else (Returned 204, st2))
                | _ \<Rightarrow> (Unmodelled, st1))
          else (Returned 204, st1))"

text \<open>Lines 124 to 160.\<close>

definition process_payload :: "env \<Rightarrow> request \<Rightarrow> bot_state \<Rightarrow> outcome \<times> bot_state" where
  "process_payload e req st =
     (case req_json req of
        Inl status \<Rightarrow> (Aborted status, st)
      | Inr d \<Rightarrow>
          (case merged_pr_closed d of
             Inl err \<Rightarrow> (Raised err, st)
           | Inr False \<Rightarrow> (Returned 204, st)
           | Inr True \<Rightarrow>
               (case read_merge_event d of
                  Inl err \<Rightarrow> (Raised err, st)
                | Inr ev \<Rightarrow>
                    (case extract_issue (body ev) of
                       Inl err \<Rightarrow> (Raised err, st)
                     | Inr None \<Rightarrow>
                         (Returned 204, st\<lparr>log := log st @ [NoLinkedIssue (pr_number ev)]\<rparr>)
                     | Inr (Some issue_number) \<Rightarrow> award e ev issue_number st))))"

definition github_webhook :: "env \<Rightarrow> request \<Rightarrow> bot_state \<Rightarrow> outcome \<times> bot_state" where
  "github_webhook e req st =
     (case verify_signature e req of
        Some out \<Rightarrow> (out, st)
      | None \<Rightarrow> process_payload e req st)"

section \<open>The claim about the issue reference, in its own words\<close>



section \<open>Sample inputs\<close>

text \<open>
  The inputs at which the theorems below are instantiated: the scenario of a merged
  pull request by \<open>octocat\<close>, issue 42 with the label \<open>Medium\<close>, every other issue
  unknown to GitHub. The digest function of the sample environment is a stand-in for
  HMAC-SHA256; the theorems hold for every digest function.
\<close>

definition sample_env :: env where
  "sample_env =
     \<lparr>github_secret = ''s3cr3t'',
      hmac_sha256 = (\<lambda>k m. take 2 (m @ k)),
      http_get = (\<lambda>n. if n = 42
         then Inr \<lparr>status_code = 200,
                   json_body = Inr (JObj [(''labels'', JArr [JObj [(''name'', JStr ''Medium'')]])])\<rparr>
         else Inr \<lparr>status_code = 404, json_body = Inl JSONDecodeError\<rparr>),
      channel_found = True\<rparr>"

definition signed_request :: "env \<Rightarrow> string \<Rightarrow> nat + json \<Rightarrow> request" where
  "signed_request e raw parsed =
     \<lparr>req_signature = Some (expected_signature e raw), req_data = raw, req_json = parsed\<rparr>"

definition pull_request_event :: "string \<Rightarrow> json \<Rightarrow> json \<Rightarrow> json" where
  "pull_request_event action merged b =
     JObj [(''action'', JStr action),
           (''pull_request'',
            JObj [(''merged'', merged), (''user'', JObj [(''login'', JStr ''octocat'')]),
                  (''number'', JInt 7), (''title'', JStr ''Add tests''),
                  (''html_url'', JStr ''https://example.org/pull/7''), (''body'', b)])]"

definition empty_state :: bot_state where
  "empty_state = \<lparr>scores = [], sent = [], log = []\<rparr>"

text \<open>The sample environment with GitHub out of reach: every request to it fails.\<close>

definition offline_env :: env where
  "offline_env = sample_env\<lparr>http_get := (\<lambda>n. Inl RequestException)\<rparr>"

section \<open>Words of a text\<close>

text \<open>
  The words of a text, for the claim that a keyword need not stand alone: the longest
  runs of letters, digits and underscores. A standalone keyword is a word that is one
  of the nine keywords in some case.
\<close>

fun words_from :: "string \<Rightarrow> string \<Rightarrow> string list" where
  "words_from w [] = (if w = [] then [] else [w])"
| "words_from w (c # cs) =
     (if is_digit c \<or> (97 \<le> code (lower_char c) \<and> code (lower_char c) \<le> 122) \<or> c = CHR ''_''
      then words_from (w @ [c]) cs
      else (if w = [] then [] else [w]) @ words_from [] cs)"

definition standalone_keywords :: "string \<Rightarrow> string list" where
  "standalone_keywords s = filter (\<lambda>w. lower w \<in> set closing_keywords) (words_from [] s)"

section \<open>Properties\<close>

subsection \<open>The label policy\<close>

text \<open>
  Claim C1. For every set of label names the policy returns one of 0, 5, 10 and 20, by
  precedence: 20 when the set has "hard", whatever else it has; otherwise 10 when it has
  "medium"; otherwise 5 when it has "easy"; otherwise 0. A set with both "hard" and
  "easy" gives 20, not 25.
\<close>

theorem points_for_labels_precedence:
  "points_for_labels labels \<in> {0, 5, 10, 20}
   \<and> (''hard'' \<in> labels \<longrightarrow> points_for_labels labels = 20)
   \<and> (''hard'' \<notin> labels \<and> ''medium'' \<in> labels \<longrightarrow> points_for_labels labels = 10)
   \<and> (''hard'' \<notin> labels \<and> ''medium'' \<notin> labels \<and> ''easy'' \<in> labels
        \<longrightarrow> points_for_labels labels = 5)
   \<and> (''hard'' \<notin> labels \<and> ''medium'' \<notin> labels \<and> ''easy'' \<notin> labels
        \<longrightarrow> points_for_labels labels = 0)
   \<and> points_for_labels (insert ''hard'' (insert ''easy'' labels)) = 20"
  by (simp add: points_for_labels_def)

theorem points_for_labels_precedence_witness:
  "''hard'' \<in> {''hard'', ''easy''} \<and> points_for_labels {''hard'', ''easy''} = 20
   \<and> points_for_labels {''hard'', ''easy''} \<noteq> 25
   \<and> ''hard'' \<notin> {''medium'', ''bug''} \<and> ''medium'' \<in> {''medium'', ''bug''}
   \<and> points_for_labels {''medium'', ''bug''} = 10
   \<and> ''hard'' \<notin> {''easy''} \<and> ''medium'' \<notin> {''easy''} \<and> ''easy'' \<in> {''easy''}
   \<and> points_for_labels {''easy''} = 5
   \<and> ''hard'' \<notin> {''bug''} \<and> ''medium'' \<notin> {''bug''} \<and> ''easy'' \<notin> {''bug''}
   \<and> points_for_labels {''bug''} = 0"
  using points_for_labels_precedence [of "{''hard'', ''easy''}"]
    points_for_labels_precedence [of "{''medium'', ''bug''}"]
    points_for_labels_precedence [of "{''easy''}"]
    points_for_labels_precedence [of "{''bug''}"]
  by simp

subsection \<open>The score table\<close>








subsection \<open>The signature of a request\<close>

lemma code_less_256: "code c < 256"
proof -
  have "(of_char c :: nat) mod 256 < 256" by (rule mod_less_divisor) simp
  then show ?thesis by (simp add: code_def)
qed

lemma hex_digit_ascii: "n < 16 \<Longrightarrow> code (hex_digit n) < 128"
  by (simp add: hex_digit_def code_def)

lemma hexdigest_ascii: "is_ascii (hexdigest bytes)"
proof -
  have "code c div 16 < 16" for c using code_less_256 [of c] by simp
  moreover have "code c mod 16 < 16" for c by simp
  ultimately show ?thesis
    by (induction bytes) (simp_all add: hexdigest_def is_ascii_def hex_digit_ascii)
qed

lemma expected_signature_ascii: "is_ascii (expected_signature e raw)"
  using hexdigest_ascii by (simp add: expected_signature_def is_ascii_def code_def)

lemma expected_signature_prefix:
  "expected_signature e raw \<noteq> [] \<and> startswith (expected_signature e raw) ''sha256=''"
  by (simp add: expected_signature_def startswith_def)

lemma verify_signed: "verify_signature e (signed_request e raw parsed) = None"
  using expected_signature_ascii [of e raw] expected_signature_prefix [of e raw]
  by (simp add: verify_signature_def signed_request_def compare_digest_def)

subsection \<open>The issue reference\<close>




















lemma sample_merge_event:
  "merged_pr_closed (pull_request_event ''closed'' (JBool True) b) = Inr True
   \<and> read_merge_event (pull_request_event ''closed'' (JBool True) b)
       = Inr \<lparr>username = JStr ''octocat'', pr_number = JInt 7, title = JStr ''Add tests'',
              html_url = JStr ''https://example.org/pull/7'', body = b\<rparr>"
  by (simp add: merged_pr_closed_def read_merge_event_def pull_request_event_def ebind_def
      dict_get_def subscript_def)



text \<open>
  Claim C10. The pattern does not ask for a word boundary before the keyword: the body
  \<open>prefixes #3\<close> has no keyword as a word of its own (its words are \<open>prefixes\<close> and
  \<open>3\<close>), and the extraction succeeds on it with issue number 3, since \<open>fixes\<close> ends
  the longer word.
\<close>

theorem keyword_inside_a_word:
  "standalone_keywords ''prefixes #3'' = []
   \<and> re_search ''prefixes #3'' = Some ''3''
   \<and> extract_issue (JStr ''prefixes #3'') = Inr (Some 3)"
  by code_simp

subsection \<open>The leaderboard\<close>

lemma select_top_length: "length (select_top n rows) \<le> n"
  by (simp add: select_top_def)

lemma select_top_sorted: "sorted_wrt (\<lambda>r s. snd s \<le> snd r) (select_top n rows)"
proof -
  have "sorted (map (\<lambda>row. - snd row) (sort_key (\<lambda>row. - snd row) rows))"
    by (rule sorted_sort_key)
  then have "sorted_wrt (\<lambda>r s. snd s \<le> snd r) (sort_key (\<lambda>row. - snd row) rows)"
    by (simp add: sorted_map)
  then show ?thesis
    unfolding select_top_def by (rule sorted_wrt_take)
qed

lemma select_top_subset: "set (select_top n rows) \<subseteq> set rows"
  unfolding select_top_def using set_take_subset [of n "sort_key (\<lambda>row. - snd row) rows"] by simp

lemma select_top_empty: "0 < n \<Longrightarrow> select_top n rows = [] \<longleftrightarrow> rows = []"
proof -
  assume "0 < n"
  have "length (sort_key (\<lambda>row. - snd row) rows) = length rows" by simp
  then show ?thesis using \<open>0 < n\<close> unfolding select_top_def
    by (metis length_0_conv take_eq_Nil not_gr_zero)
qed

lemma select_top_Nil: "select_top n [] = []"
  by (simp add: select_top_def)

text \<open>
  Claim C6. For every table and every \<open>n\<close>, the query with limit \<open>n\<close> returns at most
  \<open>n\<close> rows, in non-increasing order of points, all of them rows of the table. The
  command runs the query with limit 10 and leaves the state as it is. On an empty table
  it sends the text "The leaderboard is currently empty!" and not an embed with an empty
  list; on any other table it sends the embed with the lines of the best ten rows.
\<close>

theorem leaderboard_top:
  "length (select_top n (scores st)) \<le> n
   \<and> sorted_wrt (\<lambda>r s. snd s \<le> snd r) (select_top n (scores st))
   \<and> set (select_top n (scores st)) \<subseteq> set (scores st)
   \<and> snd (show_leaderboard st) = st
   \<and> (scores st = [] \<longrightarrow> fst (show_leaderboard st) = Text ''The leaderboard is currently empty!'')
   \<and> (scores st \<noteq> [] \<longrightarrow>
        fst (show_leaderboard st) = LeaderboardEmbed (leaderboard_lines 1 (select_top 10 (scores st))))"
  using select_top_empty [of 10 "scores st"]
  by (simp add: select_top_length select_top_sorted select_top_subset select_top_Nil
      show_leaderboard_def Let_def)

theorem leaderboard_top_witness:
  "select_top 2 [(''amy'', 5), (''bob'', 20), (''cy'', 10)] = [(''bob'', 20), (''cy'', 10)]
   \<and> length (select_top 2 [(''amy'', 5), (''bob'', 20), (''cy'', 10)]) \<le> 2
   \<and> scores \<lparr>scores = [], sent = [], log = []\<rparr> = []
   \<and> show_leaderboard \<lparr>scores = [], sent = [], log = []\<rparr>
       = (Text ''The leaderboard is currently empty!'', \<lparr>scores = [], sent = [], log = []\<rparr>)
   \<and> scores \<lparr>scores = [(''amy'', 5), (''bob'', 20), (''cy'', 10)], sent = [], log = []\<rparr> \<noteq> []
   \<and> (\<exists>d. fst (show_leaderboard \<lparr>scores = [(''amy'', 5), (''bob'', 20), (''cy'', 10)], sent = [], log = []\<rparr>)
         = LeaderboardEmbed d)"
  using leaderboard_top [of 2 "\<lparr>scores = [(''amy'', 5), (''bob'', 20), (''cy'', 10)], sent = [], log = []\<rparr>"]
    leaderboard_top [of 2 "\<lparr>scores = [], sent = [], log = []\<rparr>"]
  by (simp add: select_top_def prod_eq_iff)

subsection \<open>Checking the signature\<close>

lemma webhook_verified:
  "verify_signature e req = None \<Longrightarrow> github_webhook e req st = process_payload e req st"
  by (simp add: github_webhook_def)

lemma webhook_rejected:
  "verify_signature e req = Some out \<Longrightarrow> github_webhook e req st = (out, st)"
  by (simp add: github_webhook_def)

lemma verify_missing: "req_signature req = None \<Longrightarrow> verify_signature e req = Some (Aborted 400)"
  by (simp add: verify_signature_def)

lemma verify_malformed:
  "req_signature req = Some s \<Longrightarrow> \<not> startswith s ''sha256=''
   \<Longrightarrow> verify_signature e req = Some (Aborted 400)"
  by (simp add: verify_signature_def)

lemma verify_mismatch:
  "req_signature req = Some s \<Longrightarrow> startswith s ''sha256='' \<Longrightarrow> is_ascii s
   \<Longrightarrow> s \<noteq> expected_signature e (req_data req)
   \<Longrightarrow> verify_signature e req = Some (Aborted 403)"
  using expected_signature_ascii [of e "req_data req"]
  by (auto simp: verify_signature_def compare_digest_def startswith_def)

lemma verify_match:
  "req_signature req = Some (expected_signature e (req_data req)) \<Longrightarrow> verify_signature e req = None"
  using expected_signature_ascii [of e "req_data req"] expected_signature_prefix [of e "req_data req"]
  by (simp add: verify_signature_def compare_digest_def)

lemma verify_None_iff:
  "verify_signature e req = None \<longleftrightarrow> req_signature req = Some (expected_signature e (req_data req))"
proof
  assume "verify_signature e req = None"
  then show "req_signature req = Some (expected_signature e (req_data req))"
    by (auto simp: verify_signature_def compare_digest_def split: option.splits if_splits)
next
  assume "req_signature req = Some (expected_signature e (req_data req))"
  then show "verify_signature e req = None" by (rule verify_match)
qed

lemma verify_outcomes:
  "verify_signature e req = Some out \<Longrightarrow> out \<in> {Aborted 400, Aborted 403, Raised TypeError}"
  by (auto simp: verify_signature_def compare_digest_def split: option.splits if_splits)

lemma code_hex_digit: "n < 16 \<Longrightarrow> code (hex_digit n) = (if n < 10 then 48 + n else 87 + n)"
  by (simp add: hex_digit_def code_def)

lemma hex_digit_inj: "m < 16 \<Longrightarrow> n < 16 \<Longrightarrow> hex_digit m = hex_digit n \<Longrightarrow> m = n"
proof -
  assume m: "m < 16" and n: "n < 16" and eq: "hex_digit m = hex_digit n"
  from eq have "code (hex_digit m) = code (hex_digit n)" by simp
  with m n show "m = n" by (simp add: code_hex_digit split: if_splits)
qed

lemma hex_pair_inj:
  assumes "hex_digit (code x div 16) = hex_digit (code y div 16)"
    and "hex_digit (code x mod 16) = hex_digit (code y mod 16)"
  shows "x = y"
proof -
  have dx: "code x div 16 < 16" and dy: "code y div 16 < 16"
    using code_less_256 [of x] code_less_256 [of y] by simp_all
  have "code x div 16 = code y div 16" using hex_digit_inj [OF dx dy assms(1)] .
  moreover have "code x mod 16 = code y mod 16" using hex_digit_inj [OF _ _ assms(2)] by simp
  ultimately have "code x = code y" by (metis div_mult_mod_eq)
  then show ?thesis by (simp add: code_def)
qed

lemma hexdigest_inj: "hexdigest a = hexdigest b \<Longrightarrow> a = b"
proof (induction a arbitrary: b)
  case Nil
  then show ?case by (cases b) (simp_all add: hexdigest_def)
next
  case (Cons x xs)
  then show ?case
  proof (cases b)
    case Nil
    with Cons.prems show ?thesis by (simp add: hexdigest_def)
  next
    case (Cons y ys)
    with Cons.prems have h: "hex_digit (code x div 16) = hex_digit (code y div 16)"
      "hex_digit (code x mod 16) = hex_digit (code y mod 16)" "hexdigest xs = hexdigest ys"
      by (simp_all add: hexdigest_def)
    from hex_pair_inj [OF h(1,2)] Cons.IH [OF h(3)] Cons show ?thesis by simp
  qed
qed

lemma expected_signature_differs:
  "hmac_sha256 e (github_secret e) b' \<noteq> hmac_sha256 e (github_secret e) b
   \<Longrightarrow> expected_signature e b \<noteq> expected_signature e b'"
  using hexdigest_inj by (auto simp: expected_signature_def)

lemma verify_non_ascii:
  "req_signature req = Some s \<Longrightarrow> startswith s ''sha256='' \<Longrightarrow> \<not> is_ascii s
   \<Longrightarrow> verify_signature e req = Some (Raised TypeError)"
  by (auto simp: verify_signature_def compare_digest_def startswith_def)

text \<open>
  What lines 115 to 121 do with every request. Without the signature header, or with a
  header that does not start with \<open>sha256=\<close>, the request is aborted with 400. With a
  header that starts with the prefix, is ASCII and differs from \<open>sha256=\<close> followed by
  the hexadecimal HMAC of the raw body, it is aborted with 403. With a header that
  starts with the prefix and is not ASCII, \<^verbatim>\<open>hmac.compare_digest\<close> raises
  \<^verbatim>\<open>TypeError\<close>. All three happen whatever \<^verbatim>\<open>request.json\<close> would give, and
  leave the state as it is. A request whose header is the expected signature passes the
  check and is processed; no other header passes. A request whose body was changed
  after signing is aborted with 403 whenever the change alters the HMAC.
\<close>

lemma signature_check:
  "(req_signature req = None \<or> (\<exists>s. req_signature req = Some s \<and> \<not> startswith s ''sha256='')
      \<longrightarrow> github_webhook e req st = (Aborted 400, st))
   \<and> (\<forall>s. req_signature req = Some s \<and> startswith s ''sha256='' \<and> is_ascii s
          \<and> s \<noteq> expected_signature e (req_data req)
      \<longrightarrow> github_webhook e req st = (Aborted 403, st))
   \<and> (\<forall>s. req_signature req = Some s \<and> startswith s ''sha256='' \<and> \<not> is_ascii s
      \<longrightarrow> github_webhook e req st = (Raised TypeError, st))
   \<and> (req_signature req = Some (expected_signature e (req_data req))
      \<longrightarrow> verify_signature e req = None \<and> github_webhook e req st = process_payload e req st)
   \<and> (req_signature req \<noteq> Some (expected_signature e (req_data req))
      \<longrightarrow> fst (github_webhook e req st) \<in> {Aborted 400, Aborted 403, Raised TypeError}
          \<and> snd (github_webhook e req st) = st)
   \<and> (\<forall>b'. req_signature req = Some (expected_signature e (req_data req))
          \<and> hmac_sha256 e (github_secret e) b' \<noteq> hmac_sha256 e (github_secret e) (req_data req)
      \<longrightarrow> github_webhook e (req\<lparr>req_data := b'\<rparr>) st = (Aborted 403, st))"
proof (intro conjI allI impI)
  assume "req_signature req = None \<or> (\<exists>s. req_signature req = Some s \<and> \<not> startswith s ''sha256='')"
  then have "verify_signature e req = Some (Aborted 400)"
    using verify_missing verify_malformed by blast
  then show "github_webhook e req st = (Aborted 400, st)" by (rule webhook_rejected)
next
  fix s
  assume "req_signature req = Some s \<and> startswith s ''sha256='' \<and> is_ascii s
          \<and> s \<noteq> expected_signature e (req_data req)"
  then have "verify_signature e req = Some (Aborted 403)" using verify_mismatch by blast
  then show "github_webhook e req st = (Aborted 403, st)" by (rule webhook_rejected)
next
  fix s
  assume "req_signature req = Some s \<and> startswith s ''sha256='' \<and> \<not> is_ascii s"
  then have "verify_signature e req = Some (Raised TypeError)" using verify_non_ascii by blast
  then show "github_webhook e req st = (Raised TypeError, st)" by (rule webhook_rejected)
next
  assume a: "req_signature req = Some (expected_signature e (req_data req))"
  then show "verify_signature e req = None" by (rule verify_match)
  from a show "github_webhook e req st = process_payload e req st"
    by (simp add: verify_match webhook_verified)
next
  assume "req_signature req \<noteq> Some (expected_signature e (req_data req))"
  then have "verify_signature e req \<noteq> None" by (simp add: verify_None_iff)
  then obtain out where out: "verify_signature e req = Some out" by blast
  then have g: "github_webhook e req st = (out, st)" by (rule webhook_rejected)
  from out g show "fst (github_webhook e req st) \<in> {Aborted 400, Aborted 403, Raised TypeError}"
    using verify_outcomes by fastforce
  from g show "snd (github_webhook e req st) = st" by simp
next
  fix b'
  assume a: "req_signature req = Some (expected_signature e (req_data req))
          \<and> hmac_sha256 e (github_secret e) b' \<noteq> hmac_sha256 e (github_secret e) (req_data req)"
  let ?s = "expected_signature e (req_data req)"
  let ?r = "req\<lparr>req_data := b'\<rparr>"
  have "req_signature ?r = Some ?s" using a by simp
  moreover have "startswith ?s ''sha256=''" using expected_signature_prefix by simp
  moreover have "is_ascii ?s" by (rule expected_signature_ascii)
  moreover have "?s \<noteq> expected_signature e (req_data ?r)"
    using a expected_signature_differs by simp
  ultimately have "verify_signature e ?r = Some (Aborted 403)" by (rule verify_mismatch)
  then show "github_webhook e ?r st = (Aborted 403, st)" by (rule webhook_rejected)
qed

lemma signature_check_examples:
  "req_signature \<lparr>req_signature = None, req_data = ''raw'', req_json = Inl 400\<rparr> = None
   \<and> github_webhook sample_env \<lparr>req_signature = None, req_data = ''raw'', req_json = Inl 400\<rparr>
        empty_state = (Aborted 400, empty_state)
   \<and> startswith ''sha256=00'' ''sha256='' \<and> is_ascii ''sha256=00''
   \<and> ''sha256=00'' \<noteq> expected_signature sample_env ''raw''
   \<and> github_webhook sample_env
        \<lparr>req_signature = Some ''sha256=00'', req_data = ''raw'', req_json = Inl 400\<rparr>
        empty_state = (Aborted 403, empty_state)
   \<and> verify_signature sample_env
        \<lparr>req_signature = Some (expected_signature sample_env ''raw''), req_data = ''raw'',
          req_json = Inl 400\<rparr> = None
   \<and> hmac_sha256 sample_env (github_secret sample_env) ''row''
        \<noteq> hmac_sha256 sample_env (github_secret sample_env) ''raw''
   \<and> github_webhook sample_env
        \<lparr>req_signature = Some (expected_signature sample_env ''raw''), req_data = ''row'',
          req_json = Inl 400\<rparr>
        empty_state = (Aborted 403, empty_state)"
proof -
  let ?missing = "\<lparr>req_signature = None, req_data = ''raw'', req_json = Inl 400\<rparr>"
  let ?wrong = "\<lparr>req_signature = Some ''sha256=00'', req_data = ''raw'', req_json = Inl 400\<rparr>"
  let ?right = "\<lparr>req_signature = Some (expected_signature sample_env ''raw''), req_data = ''raw'',
          req_json = Inl 400\<rparr>"
  have exp: "expected_signature sample_env ''raw'' = ''sha256=7261''"
    by code_simp
  have d: "hmac_sha256 sample_env (github_secret sample_env) ''row''
        \<noteq> hmac_sha256 sample_env (github_secret sample_env) ''raw''"
    by (simp add: sample_env_def)
  have p: "startswith ''sha256=00'' ''sha256='' \<and> is_ascii ''sha256=00''"
    by (simp add: startswith_def is_ascii_def code_def)
  have "github_webhook sample_env ?missing empty_state = (Aborted 400, empty_state)"
    using signature_check [of ?missing sample_env empty_state] by simp
  moreover have "github_webhook sample_env ?wrong empty_state = (Aborted 403, empty_state)"
    using signature_check [of ?wrong sample_env empty_state] p exp by simp
  moreover have "verify_signature sample_env ?right = None"
    using signature_check [of ?right sample_env empty_state] by simp
  moreover have "github_webhook sample_env (?right\<lparr>req_data := ''row''\<rparr>) empty_state
      = (Aborted 403, empty_state)"
    using signature_check [of ?right sample_env empty_state] d by simp
  ultimately show ?thesis using p d exp by simp
qed

text \<open>
  Claim C2. The claim asks that a request whose signature header is present and differs
  from the HMAC of the body be rejected with HTTP 403, and lines 120 and 121 set out to do
  so. They miss one case: for every request whose header starts with \<open>sha256=\<close> and
  has a character outside ASCII, \<^verbatim>\<open>hmac.compare_digest\<close> raises \<^verbatim>\<open>TypeError\<close>
  on the two strings, the exception leaves the handler, and no 403 is sent. The payload
  is not read and the state is as it was.
\<close>

theorem non_ascii_signature_raises:
  "req_signature req = Some s \<and> startswith s ''sha256='' \<and> \<not> is_ascii s
   \<longrightarrow> s \<noteq> expected_signature e (req_data req)
       \<and> verify_signature e req = Some (Raised TypeError)
       \<and> github_webhook e req st = (Raised TypeError, st)
       \<and> github_webhook e (req\<lparr>req_json := parsed\<rparr>) st = (Raised TypeError, st)
       \<and> fst (github_webhook e req st) \<noteq> Aborted 403"
proof
  assume a: "req_signature req = Some s \<and> startswith s ''sha256='' \<and> \<not> is_ascii s"
  have "s \<noteq> expected_signature e (req_data req)"
    using a expected_signature_ascii [of e "req_data req"] by auto
  moreover have v: "verify_signature e req = Some (Raised TypeError)"
    using a verify_non_ascii by blast
  moreover have g: "github_webhook e req st = (Raised TypeError, st)"
    using v by (rule webhook_rejected)
  moreover have "verify_signature e (req\<lparr>req_json := parsed\<rparr>) = Some (Raised TypeError)"
    using a verify_non_ascii [of "req\<lparr>req_json := parsed\<rparr>" s e] by simp
  then have "github_webhook e (req\<lparr>req_json := parsed\<rparr>) st = (Raised TypeError, st)"
    by (rule webhook_rejected)
  moreover have "fst (github_webhook e req st) \<noteq> Aborted 403" using g by simp
  ultimately show "s \<noteq> expected_signature e (req_data req)
       \<and> verify_signature e req = Some (Raised TypeError)
       \<and> github_webhook e req st = (Raised TypeError, st)
       \<and> github_webhook e (req\<lparr>req_json := parsed\<rparr>) st = (Raised TypeError, st)
       \<and> fst (github_webhook e req st) \<noteq> Aborted 403" by blast
qed

theorem non_ascii_signature_raises_witness:
  "startswith (''sha256='' @ [CHR 0xE9]) ''sha256=''
   \<and> \<not> is_ascii (''sha256='' @ [CHR 0xE9])
   \<and> ''sha256='' @ [CHR 0xE9] \<noteq> expected_signature sample_env ''raw''
   \<and> github_webhook sample_env
        \<lparr>req_signature = Some (''sha256='' @ [CHR 0xE9]), req_data = ''raw'',
          req_json = Inr (pull_request_event ''closed'' (JBool True) (JStr ''Fixes #42''))\<rparr>
        empty_state
      = (Raised TypeError, empty_state)
   \<and> Raised TypeError \<noteq> Aborted 403"
proof -
  let ?s = "''sha256='' @ [CHR 0xE9]"
  let ?req = "\<lparr>req_signature = Some ?s, req_data = ''raw'',
          req_json = Inr (pull_request_event ''closed'' (JBool True) (JStr ''Fixes #42''))\<rparr>"
  have p: "startswith ?s ''sha256=''" by (simp add: startswith_def)
  have n: "\<not> is_ascii ?s" by (simp add: is_ascii_def code_def)
  have h: "req_signature ?req = Some ?s \<and> startswith ?s ''sha256='' \<and> \<not> is_ascii ?s"
    using p n by simp
  note t = non_ascii_signature_raises [of ?req ?s sample_env empty_state "req_json ?req",
      THEN mp, OF h]
  have d: "?s \<noteq> expected_signature sample_env ''raw''" using t by simp
  have g: "github_webhook sample_env ?req empty_state = (Raised TypeError, empty_state)"
    using t by blast
  show ?thesis using p n d g by simp
qed

subsection \<open>Asking GitHub for the labels\<close>

lemma get_points_not_200:
  "http_get e n = Inr r \<Longrightarrow> status_code r \<noteq> 200
   \<Longrightarrow> get_points_from_pr_labels e n st
       = (Inr 0, st\<lparr>log := log st @ [FetchFailed n (status_code r)]\<rparr>)"
  by (simp add: get_points_from_pr_labels_def)

lemma get_points_raises:
  "http_get e n = Inl err \<Longrightarrow> get_points_from_pr_labels e n st = (Inl err, st)"
  by (simp add: get_points_from_pr_labels_def)

lemma get_points_positive_state:
  "get_points_from_pr_labels e n st = (Inr p, st') \<Longrightarrow> 0 < p \<Longrightarrow> st' = st"
  by (auto simp: get_points_from_pr_labels_def split: sum.splits if_splits)

lemma get_points_error_state:
  "get_points_from_pr_labels e n st = (Inl err, st') \<Longrightarrow> st' = st"
  by (auto simp: get_points_from_pr_labels_def split: sum.splits if_splits)

lemma collect_label_names:
  "list_all2 (\<lambda>l s. \<exists>kv. l = JObj kv \<and> map_of kv ''name'' = Some (JStr s)) ls names
   \<Longrightarrow> collect (map label_name_lower ls) = Inr (map lower names)"
proof (induction ls names rule: list_all2_induct)
  case Nil
  then show ?case by simp
next
  case (Cons l ls s names)
  then show ?case by (auto simp: label_name_lower_def subscript_def ebind_def)
qed

lemma label_set_names:
  "map_of kvs ''labels'' = Some (JArr ls)
   \<Longrightarrow> list_all2 (\<lambda>l s. \<exists>kv. l = JObj kv \<and> map_of kv ''name'' = Some (JStr s)) ls names
   \<Longrightarrow> label_set (JObj kvs) = Inr (set (map lower names))"
  by (simp add: label_set_def dict_get_def ebind_def collect_label_names)

lemma get_points_200:
  "http_get e n = Inr r \<Longrightarrow> status_code r = 200 \<Longrightarrow> json_body r = Inr (JObj kvs)
   \<Longrightarrow> map_of kvs ''labels'' = Some (JArr ls)
   \<Longrightarrow> list_all2 (\<lambda>l s. \<exists>kv. l = JObj kv \<and> map_of kv ''name'' = Some (JStr s)) ls names
   \<Longrightarrow> get_points_from_pr_labels e n st = (Inr (points_for_labels (set (map lower names))), st)"
  by (simp add: get_points_from_pr_labels_def label_set_names)

lemma webhook_reaches_award:
  "verify_signature e req = None \<Longrightarrow> req_json req = Inr d \<Longrightarrow> merged_pr_closed d = Inr True
   \<Longrightarrow> read_merge_event d = Inr ev \<Longrightarrow> extract_issue (body ev) = Inr (Some n)
   \<Longrightarrow> github_webhook e req st = award e ev n st"
  by (simp add: github_webhook_def process_payload_def)

lemma award_not_200:
  "http_get e n = Inr r \<Longrightarrow> status_code r \<noteq> 200
   \<Longrightarrow> award e ev n st = (Returned 204, st\<lparr>log := log st @ [FetchFailed n (status_code r)]\<rparr>)"
  by (simp add: award_def get_points_not_200)

lemma award_raises:
  "http_get e n = Inl err \<Longrightarrow> award e ev n st = (Raised err, st)"
  by (simp add: award_def get_points_raises)

lemma extract_fixes_42: "extract_issue (JStr ''Fixes #42'') = Inr (Some 42)" by code_simp

text \<open>
  Claim C4, as the code has it. When GitHub answers the request for an issue with a status
  other than 200, the helper returns 0 points and prints its diagnosis; the handler of
  an authenticated merged pull request that refers to this issue then returns 204 with
  the scores and the announcements as they were. When the request itself fails (no
  connection, a timeout), the exception of \<^verbatim>\<open>requests.get\<close> leaves the helper and
  the handler, with the state as it was. On a 200 answer whose labels are objects with a
  string name, the points are those of the set of the names in lower case.
\<close>

theorem resolver_failure:
  "(\<forall>r. http_get e n = Inr r \<and> status_code r \<noteq> 200 \<longrightarrow>
       get_points_from_pr_labels e n st
         = (Inr 0, st\<lparr>log := log st @ [FetchFailed n (status_code r)]\<rparr>)
       \<and> (verify_signature e req = None \<and> req_json req = Inr d \<and> merged_pr_closed d = Inr True
            \<and> read_merge_event d = Inr ev \<and> extract_issue (body ev) = Inr (Some n)
           \<longrightarrow> github_webhook e req st
                 = (Returned 204, st\<lparr>log := log st @ [FetchFailed n (status_code r)]\<rparr>)))
   \<and> (\<forall>err. http_get e n = Inl err \<longrightarrow>
       get_points_from_pr_labels e n st = (Inl err, st)
       \<and> (verify_signature e req = None \<and> req_json req = Inr d \<and> merged_pr_closed d = Inr True
            \<and> read_merge_event d = Inr ev \<and> extract_issue (body ev) = Inr (Some n)
           \<longrightarrow> github_webhook e req st = (Raised err, st)))
   \<and> (\<forall>r kvs ls names. http_get e n = Inr r \<and> status_code r = 200 \<and> json_body r = Inr (JObj kvs)
          \<and> map_of kvs ''labels'' = Some (JArr ls)
          \<and> list_all2 (\<lambda>l s. \<exists>kv. l = JObj kv \<and> map_of kv ''name'' = Some (JStr s)) ls names
       \<longrightarrow> get_points_from_pr_labels e n st
             = (Inr (points_for_labels (set (map lower names))), st))"
proof (intro conjI allI impI)
  fix r assume a: "http_get e n = Inr r \<and> status_code r \<noteq> 200"
  then show "get_points_from_pr_labels e n st
         = (Inr 0, st\<lparr>log := log st @ [FetchFailed n (status_code r)]\<rparr>)"
    by (simp add: get_points_not_200)
  assume "verify_signature e req = None \<and> req_json req = Inr d \<and> merged_pr_closed d = Inr True
            \<and> read_merge_event d = Inr ev \<and> extract_issue (body ev) = Inr (Some n)"
  then have "github_webhook e req st = award e ev n st" by (simp add: webhook_reaches_award)
  with a show "github_webhook e req st
                 = (Returned 204, st\<lparr>log := log st @ [FetchFailed n (status_code r)]\<rparr>)"
    by (simp add: award_not_200)
next
  fix err assume a: "http_get e n = Inl err"
  then show "get_points_from_pr_labels e n st = (Inl err, st)" by (rule get_points_raises)
  assume "verify_signature e req = None \<and> req_json req = Inr d \<and> merged_pr_closed d = Inr True
            \<and> read_merge_event d = Inr ev \<and> extract_issue (body ev) = Inr (Some n)"
  then have "github_webhook e req st = award e ev n st" by (simp add: webhook_reaches_award)
  with a show "github_webhook e req st = (Raised err, st)" by (simp add: award_raises)
next
  fix r kvs ls names
  assume "http_get e n = Inr r \<and> status_code r = 200 \<and> json_body r = Inr (JObj kvs)
          \<and> map_of kvs ''labels'' = Some (JArr ls)
          \<and> list_all2 (\<lambda>l s. \<exists>kv. l = JObj kv \<and> map_of kv ''name'' = Some (JStr s)) ls names"
  then show "get_points_from_pr_labels e n st
             = (Inr (points_for_labels (set (map lower names))), st)"
    using get_points_200 by blast
qed

theorem resolver_failure_witness:
  "(\<exists>r. http_get sample_env 9 = Inr r \<and> status_code r \<noteq> 200)
   \<and> get_points_from_pr_labels sample_env 9 empty_state
       = (Inr 0, \<lparr>scores = [], sent = [], log = [FetchFailed 9 404]\<rparr>)
   \<and> github_webhook sample_env
        (signed_request sample_env ''raw''
           (Inr (pull_request_event ''closed'' (JBool True) (JStr ''Fixes #9''))))
        empty_state
      = (Returned 204, \<lparr>scores = [], sent = [], log = [FetchFailed 9 404]\<rparr>)
   \<and> http_get offline_env 42 = Inl RequestException
   \<and> get_points_from_pr_labels offline_env 42 empty_state = (Inl RequestException, empty_state)
   \<and> (\<exists>r. http_get sample_env 42 = Inr r \<and> status_code r = 200)
   \<and> get_points_from_pr_labels sample_env 42 empty_state = (Inr 10, empty_state)"
proof -
  let ?d = "pull_request_event ''closed'' (JBool True) (JStr ''Fixes #9'')"
  let ?req = "signed_request sample_env ''raw'' (Inr ?d)"
  let ?ev = "\<lparr>username = JStr ''octocat'', pr_number = JInt 7, title = JStr ''Add tests'',
              html_url = JStr ''https://example.org/pull/7'', body = JStr ''Fixes #9''\<rparr>"
  let ?r404 = "\<lparr>status_code = 404, json_body = Inl JSONDecodeError\<rparr>"
  let ?kvs = "[(''labels'', JArr [JObj [(''name'', JStr ''Medium'')]])]"
  let ?r200 = "\<lparr>status_code = 200, json_body = Inr (JObj ?kvs)\<rparr>"
  have g9: "http_get sample_env 9 = Inr ?r404" by (simp add: sample_env_def)
  have g42: "http_get sample_env 42 = Inr ?r200" by (simp add: sample_env_def)
  have off: "http_get offline_env 42 = Inl RequestException" by (simp add: offline_env_def)
  have v: "verify_signature sample_env ?req = None" by (rule verify_signed)
  have j: "req_json ?req = Inr ?d" by (simp add: signed_request_def)
  have m: "merged_pr_closed ?d = Inr True" and r: "read_merge_event ?d = Inr ?ev"
    using sample_merge_event by simp_all
  have x: "extract_issue (body ?ev) = Inr (Some 9)" by code_simp
  have names: "list_all2 (\<lambda>l s. \<exists>kv. l = JObj kv \<and> map_of kv ''name'' = Some (JStr s))
      [JObj [(''name'', JStr ''Medium'')]] [''Medium'']" by simp
  have low: "lower ''Medium'' = ''medium''" by code_simp
  have n9: "status_code ?r404 \<noteq> 200" by simp
  note t9 = resolver_failure [of sample_env 9 empty_state ?req ?d ?ev,
      THEN conjunct1, rule_format, of ?r404, OF conjI [OF g9 n9]]
  note toff = resolver_failure [of offline_env 42 empty_state ?req ?d ?ev,
      THEN conjunct2, THEN conjunct1, rule_format, OF off]
  have h42: "http_get sample_env 42 = Inr ?r200 \<and> status_code ?r200 = 200
      \<and> json_body ?r200 = Inr (JObj ?kvs)
      \<and> map_of ?kvs ''labels'' = Some (JArr [JObj [(''name'', JStr ''Medium'')]])
      \<and> list_all2 (\<lambda>l s. \<exists>kv. l = JObj kv \<and> map_of kv ''name'' = Some (JStr s))
          [JObj [(''name'', JStr ''Medium'')]] [''Medium'']"
    using g42 names by simp
  note t42 = resolver_failure [of sample_env 42 empty_state ?req ?d ?ev,
      THEN conjunct2, THEN conjunct2, rule_format, OF h42]
  have a: "get_points_from_pr_labels sample_env 9 empty_state
       = (Inr 0, \<lparr>scores = [], sent = [], log = [FetchFailed 9 404]\<rparr>)"
    using t9 [THEN conjunct1] by (simp add: empty_state_def)
  have "github_webhook sample_env ?req empty_state
      = (Returned 204, empty_state\<lparr>log := log empty_state @ [FetchFailed 9 (status_code ?r404)]\<rparr>)"
    using t9 [THEN conjunct2] v j m r x by blast
  then have b: "github_webhook sample_env ?req empty_state
      = (Returned 204, \<lparr>scores = [], sent = [], log = [FetchFailed 9 404]\<rparr>)"
    by (simp add: empty_state_def)
  have c: "get_points_from_pr_labels offline_env 42 empty_state = (Inl RequestException, empty_state)"
    using toff [THEN conjunct1] .
  have e: "get_points_from_pr_labels sample_env 42 empty_state = (Inr 10, empty_state)"
    using t42 low by (simp add: points_for_labels_def)
  have r9: "\<exists>r. http_get sample_env 9 = Inr r \<and> status_code r \<noteq> 200" using g9 n9 by blast
  have r42: "\<exists>r. http_get sample_env 42 = Inr r \<and> status_code r = 200" using g42 by simp
  show ?thesis using a b c e r9 r42 off by blast
qed

text \<open>
  The claim as the specification states it fails when the request to GitHub raises: the
  handler does not return 204.
\<close>

theorem network_failure_counterexample:
  "http_get offline_env 42 = Inl RequestException
   \<and> verify_signature offline_env
        (signed_request offline_env ''raw''
           (Inr (pull_request_event ''closed'' (JBool True) (JStr ''Fixes #42'')))) = None
   \<and> github_webhook offline_env
        (signed_request offline_env ''raw''
           (Inr (pull_request_event ''closed'' (JBool True) (JStr ''Fixes #42''))))
        empty_state
      = (Raised RequestException, empty_state)
   \<and> Raised RequestException \<noteq> Returned 204"
proof -
  let ?d = "pull_request_event ''closed'' (JBool True) (JStr ''Fixes #42'')"
  let ?req = "signed_request offline_env ''raw'' (Inr ?d)"
  have h: "http_get offline_env 42 = Inl RequestException" by (simp add: offline_env_def)
  have v: "verify_signature offline_env ?req = None" by (rule verify_signed)
  have j: "req_json ?req = Inr ?d" by (simp add: signed_request_def)
  have "github_webhook offline_env ?req empty_state
      = award offline_env \<lparr>username = JStr ''octocat'', pr_number = JInt 7, title = JStr ''Add tests'',
              html_url = JStr ''https://example.org/pull/7'', body = JStr ''Fixes #42''\<rparr> 42 empty_state"
    using webhook_reaches_award [OF v j] sample_merge_event [of "JStr ''Fixes #42''"] extract_fixes_42 by simp
  with h v show ?thesis by (simp add: award_raises)
qed

subsection \<open>Payloads that are not merged pull requests\<close>

lemma guard_not_closed:
  "map_of kvs ''action'' \<noteq> Some (JStr ''closed'') \<Longrightarrow> merged_pr_closed (JObj kvs) = Inr False"
  by (auto simp: merged_pr_closed_def dict_get_def ebind_def split: option.splits)

lemma guard_closed:
  "map_of kvs ''action'' = Some (JStr ''closed'')
   \<Longrightarrow> merged_pr_closed (JObj kvs)
       = ebind (subscript (JObj kvs) ''pull_request'')
           (\<lambda>pr. ebind (subscript pr ''merged'') (\<lambda>merged. Inr (truthy merged)))"
  by (simp add: merged_pr_closed_def dict_get_def ebind_def)

lemma guard_merged_value:
  "map_of kvs ''action'' = Some (JStr ''closed'') \<Longrightarrow> map_of kvs ''pull_request'' = Some (JObj pr)
   \<Longrightarrow> map_of pr ''merged'' = Some v \<Longrightarrow> merged_pr_closed (JObj kvs) = Inr (truthy v)"
  by (simp add: guard_closed subscript_def ebind_def)

lemma guard_no_pull_request:
  "map_of kvs ''action'' = Some (JStr ''closed'') \<Longrightarrow> map_of kvs ''pull_request'' = None
   \<Longrightarrow> merged_pr_closed (JObj kvs) = Inl KeyError"
  by (simp add: guard_closed subscript_def ebind_def)

lemma guard_not_object: "\<forall>kvs. d \<noteq> JObj kvs \<Longrightarrow> merged_pr_closed d = Inl AttributeError"
  by (cases d) (simp_all add: merged_pr_closed_def dict_get_def ebind_def)

lemma process_guard_false:
  "req_json req = Inr d \<Longrightarrow> merged_pr_closed d = Inr False
   \<Longrightarrow> process_payload e req st = (Returned 204, st)"
  by (simp add: process_payload_def)

lemma process_guard_raises:
  "req_json req = Inr d \<Longrightarrow> merged_pr_closed d = Inl err
   \<Longrightarrow> process_payload e req st = (Raised err, st)"
  by (simp add: process_payload_def)

lemma process_not_json:
  "req_json req = Inl status \<Longrightarrow> process_payload e req st = (Aborted status, st)"
  by (simp add: process_payload_def)

lemma award_failure_state:
  "fst (award e ev n st) \<noteq> Returned 204 \<Longrightarrow> snd (award e ev n st) = st"
proof -
  assume a: "fst (award e ev n st) \<noteq> Returned 204"
  obtain res st1 where g: "get_points_from_pr_labels e n st = (res, st1)" by (cases "get_points_from_pr_labels e n st")
  show ?thesis
  proof (cases res)
    case (Inl err)
    with g have "st1 = st" using get_points_error_state by blast
    with g Inl show ?thesis by (simp add: award_def)
  next
    case (Inr p)
    show ?thesis
    proof (cases "0 < p")
      case True
      with g Inr have "st1 = st" using get_points_positive_state by blast
      with g Inr True a show ?thesis
        by (auto simp: award_def Let_def split: json.splits if_splits)
    next
      case False
      with g Inr a show ?thesis by (simp add: award_def)
    qed
  qed
qed

lemma process_failure_state:
  "fst (process_payload e req st) \<noteq> Returned 204 \<Longrightarrow> snd (process_payload e req st) = st"
  using award_failure_state
  by (auto simp: process_payload_def split: sum.splits bool.splits option.splits)

lemma webhook_failure_state:
  "fst (github_webhook e req st) \<noteq> Returned 204 \<Longrightarrow> snd (github_webhook e req st) = st"
  using process_failure_state
  by (auto simp: github_webhook_def split: option.splits)

text \<open>
  Claim C7, as the code has it. Whenever the handler ends otherwise than by returning 204,
  the scores, the announcements and the log are as they were. An authenticated request
  whose payload is a JSON object with no action, or with an action other than
  \<open>closed\<close>, is a no-op answered with 204, whatever else the payload lacks. With the
  action \<open>closed\<close> and no \<open>pull_request\<close> the handler raises \<^verbatim>\<open>KeyError\<close>; a payload
  that is not a JSON object raises \<^verbatim>\<open>AttributeError\<close>; a body that Flask cannot
  parse ends with the status with which \<^verbatim>\<open>request.json\<close> aborts.
\<close>

theorem malformed_payload:
  "(fst (github_webhook e req st) \<noteq> Returned 204 \<longrightarrow> snd (github_webhook e req st) = st)
   \<and> (\<forall>kvs. verify_signature e req = None \<and> req_json req = Inr (JObj kvs)
          \<and> map_of kvs ''action'' \<noteq> Some (JStr ''closed'')
        \<longrightarrow> github_webhook e req st = (Returned 204, st))
   \<and> (\<forall>kvs. verify_signature e req = None \<and> req_json req = Inr (JObj kvs)
          \<and> map_of kvs ''action'' = Some (JStr ''closed'') \<and> map_of kvs ''pull_request'' = None
        \<longrightarrow> github_webhook e req st = (Raised KeyError, st))
   \<and> (\<forall>d. verify_signature e req = None \<and> req_json req = Inr d \<and> (\<forall>kvs. d \<noteq> JObj kvs)
        \<longrightarrow> github_webhook e req st = (Raised AttributeError, st))
   \<and> (\<forall>status. verify_signature e req = None \<and> req_json req = Inl status
        \<longrightarrow> github_webhook e req st = (Aborted status, st))"
proof (intro conjI allI impI)
  assume "fst (github_webhook e req st) \<noteq> Returned 204"
  then show "snd (github_webhook e req st) = st" by (rule webhook_failure_state)
next
  fix kvs
  assume "verify_signature e req = None \<and> req_json req = Inr (JObj kvs)
          \<and> map_of kvs ''action'' \<noteq> Some (JStr ''closed'')"
  then show "github_webhook e req st = (Returned 204, st)"
    by (simp add: webhook_verified process_guard_false guard_not_closed)
next
  fix kvs
  assume "verify_signature e req = None \<and> req_json req = Inr (JObj kvs)
          \<and> map_of kvs ''action'' = Some (JStr ''closed'') \<and> map_of kvs ''pull_request'' = None"
  then show "github_webhook e req st = (Raised KeyError, st)"
    by (simp add: webhook_verified process_guard_raises guard_no_pull_request)
next
  fix d
  assume "verify_signature e req = None \<and> req_json req = Inr d \<and> (\<forall>kvs. d \<noteq> JObj kvs)"
  then show "github_webhook e req st = (Raised AttributeError, st)"
    by (simp add: webhook_verified process_guard_raises guard_not_object)
next
  fix status
  assume "verify_signature e req = None \<and> req_json req = Inl status"
  then show "github_webhook e req st = (Aborted status, st)"
    by (simp add: webhook_verified process_not_json)
qed

theorem malformed_payload_witness:
  "verify_signature sample_env (signed_request sample_env ''raw'' (Inr (JObj []))) = None
   \<and> map_of [] ''action'' \<noteq> Some (JStr ''closed'')
   \<and> github_webhook sample_env (signed_request sample_env ''raw'' (Inr (JObj []))) empty_state
       = (Returned 204, empty_state)
   \<and> github_webhook sample_env
        (signed_request sample_env ''raw'' (Inr (JObj [(''action'', JStr ''closed''), (''number'', JInt 7)])))
        empty_state = (Raised KeyError, empty_state)
   \<and> fst (github_webhook sample_env
        (signed_request sample_env ''raw'' (Inr (JObj [(''action'', JStr ''closed''), (''number'', JInt 7)])))
        empty_state) \<noteq> Returned 204
   \<and> snd (github_webhook sample_env
        (signed_request sample_env ''raw'' (Inr (JObj [(''action'', JStr ''closed''), (''number'', JInt 7)])))
        empty_state) = empty_state
   \<and> github_webhook sample_env (signed_request sample_env ''raw'' (Inr (JArr []))) empty_state
       = (Raised AttributeError, empty_state)
   \<and> github_webhook sample_env (signed_request sample_env ''not json'' (Inl 400)) empty_state
       = (Aborted 400, empty_state)"
proof -
  let ?empty = "signed_request sample_env ''raw'' (Inr (JObj []))"
  let ?kvs = "[(''action'', JStr ''closed''), (''number'', JInt 7)]"
  let ?closed = "signed_request sample_env ''raw'' (Inr (JObj ?kvs))"
  let ?array = "signed_request sample_env ''raw'' (Inr (JArr []))"
  let ?text = "signed_request sample_env ''not json'' (Inl 400)"
  have v: "verify_signature sample_env (signed_request sample_env raw parsed) = None" for raw parsed
    by (rule verify_signed)
  have j: "req_json (signed_request sample_env raw parsed) = parsed" for raw parsed
    by (simp add: signed_request_def)
  have a: "github_webhook sample_env ?empty empty_state = (Returned 204, empty_state)"
    using malformed_payload [of sample_env ?empty empty_state, THEN conjunct2, THEN conjunct1,
        rule_format, of "[]"] v j by simp
  have b: "github_webhook sample_env ?closed empty_state = (Raised KeyError, empty_state)"
    using malformed_payload [of sample_env ?closed empty_state, THEN conjunct2, THEN conjunct2,
        THEN conjunct1, rule_format, of ?kvs] v j by simp
  have c: "snd (github_webhook sample_env ?closed empty_state) = empty_state"
    using malformed_payload [of sample_env ?closed empty_state, THEN conjunct1] b by simp
  have d: "github_webhook sample_env ?array empty_state = (Raised AttributeError, empty_state)"
    using malformed_payload [of sample_env ?array empty_state, THEN conjunct2, THEN conjunct2,
        THEN conjunct2, THEN conjunct1, rule_format, of "JArr []"] v j by simp
  have e: "github_webhook sample_env ?text empty_state = (Aborted 400, empty_state)"
    using malformed_payload [of sample_env ?text empty_state, THEN conjunct2, THEN conjunct2,
        THEN conjunct2, THEN conjunct2, rule_format, of 400] v j by simp
  show ?thesis using a b c d e v by simp
qed

text \<open>
  The claim as the specification states it fails at its own example: action \<open>closed\<close>
  and no \<open>pull_request\<close>. The exception leaves the handler.
\<close>

theorem closed_without_pull_request_counterexample:
  "verify_signature sample_env
     (signed_request sample_env ''raw'' (Inr (JObj [(''action'', JStr ''closed'')]))) = None
   \<and> github_webhook sample_env
        (signed_request sample_env ''raw'' (Inr (JObj [(''action'', JStr ''closed'')])))
        empty_state
      = (Raised KeyError, empty_state)"
proof -
  let ?d = "JObj [(''action'', JStr ''closed'')]"
  let ?req = "signed_request sample_env ''raw'' (Inr ?d)"
  have v: "verify_signature sample_env ?req = None" by (rule verify_signed)
  have j: "req_json ?req = Inr ?d" by (simp add: signed_request_def)
  have g: "merged_pr_closed ?d = Inl KeyError" by (simp add: guard_no_pull_request)
  from v j g show ?thesis by (simp add: webhook_verified process_guard_raises)
qed

text \<open>
  Claim C8, as the code has it. An authenticated request whose payload is a JSON object
  is a no-op answered with 204, with the whole state unchanged, when its action is not
  \<open>closed\<close>, or when it has a \<open>pull_request\<close> object whose \<open>merged\<close> field is
  there and false in Python's sense. In particular this holds for every payload with a
  Boolean \<open>merged\<close> that does not have both the action \<open>closed\<close> and \<open>merged\<close> true.
\<close>

theorem no_scoring_unless_closed_and_merged:
  "(verify_signature e req = None \<and> req_json req = Inr (JObj kvs)
      \<and> (map_of kvs ''action'' \<noteq> Some (JStr ''closed'')
          \<or> (\<exists>pr v. map_of kvs ''pull_request'' = Some (JObj pr) \<and> map_of pr ''merged'' = Some v
                \<and> \<not> truthy v))
    \<longrightarrow> github_webhook e req st = (Returned 204, st))
   \<and> (\<forall>pr m. verify_signature e req = None \<and> req_json req = Inr (JObj kvs)
          \<and> map_of kvs ''pull_request'' = Some (JObj pr) \<and> map_of pr ''merged'' = Some (JBool m)
          \<and> \<not> (map_of kvs ''action'' = Some (JStr ''closed'') \<and> m)
        \<longrightarrow> github_webhook e req st = (Returned 204, st))"
proof -
  have closed_false: "merged_pr_closed (JObj kvs) = Inr False"
    if "map_of kvs ''action'' \<noteq> Some (JStr ''closed'')
          \<or> (\<exists>pr v. map_of kvs ''pull_request'' = Some (JObj pr) \<and> map_of pr ''merged'' = Some v
                \<and> \<not> truthy v)"
  proof (cases "map_of kvs ''action'' = Some (JStr ''closed'')")
    case True
    with that obtain pr v where "map_of kvs ''pull_request'' = Some (JObj pr)"
      "map_of pr ''merged'' = Some v" "\<not> truthy v" by blast
    with True show ?thesis by (simp add: guard_merged_value)
  next
    case False
    then show ?thesis by (rule guard_not_closed)
  qed
  show ?thesis
  proof (intro conjI allI impI)
    assume a: "verify_signature e req = None \<and> req_json req = Inr (JObj kvs)
      \<and> (map_of kvs ''action'' \<noteq> Some (JStr ''closed'')
          \<or> (\<exists>pr v. map_of kvs ''pull_request'' = Some (JObj pr) \<and> map_of pr ''merged'' = Some v
                \<and> \<not> truthy v))"
    then have "merged_pr_closed (JObj kvs) = Inr False" using closed_false by blast
    with a show "github_webhook e req st = (Returned 204, st)"
      by (simp add: webhook_verified process_guard_false)
  next
    fix pr m
    assume a: "verify_signature e req = None \<and> req_json req = Inr (JObj kvs)
          \<and> map_of kvs ''pull_request'' = Some (JObj pr) \<and> map_of pr ''merged'' = Some (JBool m)
          \<and> \<not> (map_of kvs ''action'' = Some (JStr ''closed'') \<and> m)"
    then have "map_of kvs ''action'' \<noteq> Some (JStr ''closed'')
          \<or> (\<exists>pr v. map_of kvs ''pull_request'' = Some (JObj pr) \<and> map_of pr ''merged'' = Some v
                \<and> \<not> truthy v)"
      by (cases m) auto
    then have "merged_pr_closed (JObj kvs) = Inr False" by (rule closed_false)
    with a show "github_webhook e req st = (Returned 204, st)"
      by (simp add: webhook_verified process_guard_false)
  qed
qed

theorem no_scoring_unless_closed_and_merged_witness:
  "verify_signature sample_env
     (signed_request sample_env ''raw''
        (Inr (pull_request_event ''closed'' (JBool False) (JStr ''Fixes #42'')))) = None
   \<and> github_webhook sample_env
        (signed_request sample_env ''raw''
           (Inr (pull_request_event ''closed'' (JBool False) (JStr ''Fixes #42''))))
        empty_state
      = (Returned 204, empty_state)
   \<and> github_webhook sample_env
        (signed_request sample_env ''raw''
           (Inr (pull_request_event ''opened'' (JBool True) (JStr ''Fixes #42''))))
        empty_state
      = (Returned 204, empty_state)"
proof -
  let ?pr = "\<lambda>merged. [(''merged'', merged), (''user'', JObj [(''login'', JStr ''octocat'')]),
                  (''number'', JInt 7), (''title'', JStr ''Add tests''),
                  (''html_url'', JStr ''https://example.org/pull/7''), (''body'', JStr ''Fixes #42'')]"
  let ?kvs = "\<lambda>action merged. [(''action'', JStr action), (''pull_request'', JObj (?pr merged))]"
  let ?unmerged = "signed_request sample_env ''raw''
           (Inr (pull_request_event ''closed'' (JBool False) (JStr ''Fixes #42'')))"
  let ?opened = "signed_request sample_env ''raw''
           (Inr (pull_request_event ''opened'' (JBool True) (JStr ''Fixes #42'')))"
  have v: "verify_signature sample_env (signed_request sample_env raw parsed) = None" for raw parsed
    by (rule verify_signed)
  have j1: "req_json ?unmerged = Inr (JObj (?kvs ''closed'' (JBool False)))"
    by (simp add: signed_request_def pull_request_event_def)
  have j2: "req_json ?opened = Inr (JObj (?kvs ''opened'' (JBool True)))"
    by (simp add: signed_request_def pull_request_event_def)
  have a: "github_webhook sample_env ?unmerged empty_state = (Returned 204, empty_state)"
    using no_scoring_unless_closed_and_merged
        [of sample_env ?unmerged "?kvs ''closed'' (JBool False)" empty_state,
         THEN conjunct2, rule_format, of "?pr (JBool False)" False]
      v j1 by simp
  have b: "github_webhook sample_env ?opened empty_state = (Returned 204, empty_state)"
    using no_scoring_unless_closed_and_merged
        [of sample_env ?opened "?kvs ''opened'' (JBool True)" empty_state, THEN conjunct1]
      v j2 by simp
  show ?thesis using a b v by simp
qed

text \<open>
  The claim as the specification states it, for every authenticated payload, fails at a
  payload with the action \<open>closed\<close> whose \<open>pull_request\<close> has no \<open>merged\<close>: it does
  not have \<open>merged\<close> true, and the handler raises instead of returning 204.
\<close>

theorem closed_without_merged_counterexample:
  "verify_signature sample_env
     (signed_request sample_env ''raw''
        (Inr (JObj [(''action'', JStr ''closed''), (''pull_request'', JObj [])]))) = None
   \<and> github_webhook sample_env
        (signed_request sample_env ''raw''
           (Inr (JObj [(''action'', JStr ''closed''), (''pull_request'', JObj [])])))
        empty_state
      = (Raised KeyError, empty_state)
   \<and> Raised KeyError \<noteq> Returned 204"
proof -
  let ?d = "JObj [(''action'', JStr ''closed''), (''pull_request'', JObj [])]"
  let ?req = "signed_request sample_env ''raw'' (Inr ?d)"
  have v: "verify_signature sample_env ?req = None" by (rule verify_signed)
  have j: "req_json ?req = Inr ?d" by (simp add: signed_request_def)
  have g: "merged_pr_closed ?d = Inl KeyError"
    by (simp add: merged_pr_closed_def dict_get_def subscript_def ebind_def)
  from v j g show ?thesis by (simp add: webhook_verified process_guard_raises)
qed

subsection \<open>A scored pull request\<close>

text \<open>
  The scenario of the specification: the body \<open>Fixes #42\<close>, issue 42 labelled
  \<open>Medium\<close>, no row for the author yet. The author gets a row with 10 points, one
  announcement goes to the channel, and the handler returns 204.
\<close>

lemma scenario_fixes_42:
  "github_webhook sample_env
     (signed_request sample_env ''raw''
        (Inr (pull_request_event ''closed'' (JBool True) (JStr ''Fixes #42''))))
     empty_state
   = (Returned 204,
      \<lparr>scores = [(''octocat'', 10)],
       sent = [\<lparr>pr_title = JStr ''Add tests'', pr_url = JStr ''https://example.org/pull/7'',
                contributor = ''octocat'', awarded = 10\<rparr>],
       log = [ScoreUpdated ''octocat'' 10]\<rparr>)"
proof -
  let ?d = "pull_request_event ''closed'' (JBool True) (JStr ''Fixes #42'')"
  let ?req = "signed_request sample_env ''raw'' (Inr ?d)"
  let ?ev = "\<lparr>username = JStr ''octocat'', pr_number = JInt 7, title = JStr ''Add tests'',
              html_url = JStr ''https://example.org/pull/7'', body = JStr ''Fixes #42''\<rparr>"
  have v: "verify_signature sample_env ?req = None" by (rule verify_signed)
  have j: "req_json ?req = Inr ?d" by (simp add: signed_request_def)
  have w: "github_webhook sample_env ?req empty_state = award sample_env ?ev 42 empty_state"
    using webhook_reaches_award [OF v j] sample_merge_event [of "JStr ''Fixes #42''"]
      extract_fixes_42 by simp
  have names: "list_all2 (\<lambda>l s. \<exists>kv. l = JObj kv \<and> map_of kv ''name'' = Some (JStr s))
      [JObj [(''name'', JStr ''Medium'')]] [''Medium'']" by simp
  have low: "lower ''Medium'' = ''medium''" by code_simp
  have "get_points_from_pr_labels sample_env 42 empty_state
      = (Inr (points_for_labels (set (map lower [''Medium'']))), empty_state)"
    using get_points_200 [of sample_env 42
        "\<lparr>status_code = 200,
          json_body = Inr (JObj [(''labels'', JArr [JObj [(''name'', JStr ''Medium'')]])])\<rparr>"
        "[(''labels'', JArr [JObj [(''name'', JStr ''Medium'')]])]"
        "[JObj [(''name'', JStr ''Medium'')]]" "[''Medium'']" empty_state] names
    by (simp add: sample_env_def)
  then have p: "get_points_from_pr_labels sample_env 42 empty_state = (Inr 10, empty_state)"
    using low by (simp add: points_for_labels_def)
  have c: "channel_found sample_env" by (simp add: sample_env_def)
  have "award sample_env ?ev 42 empty_state
      = (Returned 204,
         (update_score ''octocat'' 10 empty_state)
           \<lparr>sent := sent (update_score ''octocat'' 10 empty_state) @
              [\<lparr>pr_title = JStr ''Add tests'', pr_url = JStr ''https://example.org/pull/7'',
                contributor = ''octocat'', awarded = 10\<rparr>]\<rparr>)"
    by (simp add: award_def p c Let_def)
  then show ?thesis
    unfolding w by (simp add: update_score_def empty_state_def)
qed

end
